theory Spec2Isabelle
  imports Main "HOL-Library.AList"
begin

section \<open>The Saham Bank spider: values, strings and primitives\<close>

text \<open>
  The spider of \<^verbatim>\<open>locations/saham_bank_ma.py\<close> turns the JSON found in a locator page
  into branch records. A value decoded by \<^verbatim>\<open>json.loads\<close> is \<^verbatim>\<open>None\<close>, a bool, an
  int, a float, a string, a list or a dict with string keys. A dict is kept as the list
  of its entries in insertion order, the order in which \<^verbatim>\<open>values()\<close> iterates; a lookup
  takes the first entry with the key (a decoded dict has each key once).

  Floats stay abstract: \<open>'f\<close> is the type of Python floats, and the few primitives the
  spider applies to them come in the record \<open>pyapi\<close> below. Every theorem holds for
  all such primitives, hence for CPython's.

  Strings are byte strings (UTF-8). The string functions below are exact on ASCII
  text; characters beyond ASCII are left as they are.
\<close>

datatype 'f pyval =
    PNone
  | PBool bool
  | PInt int
  | PFloat 'f
  | PStr string
  | PList "'f pyval list"
  | PDict "(string \<times> 'f pyval) list"

datatype pyerr = AttributeError | TypeError | ValueError | OtherError

text \<open>
  A \<^verbatim>\<open>Feature\<close> item is a mutable mapping from field names to values, kept as the
  list of its entries; an unset field has no entry.
\<close>

type_synonym 'f item = "(string \<times> 'f pyval) list"

text \<open>
  The Python primitives on floats: \<^verbatim>\<open>float(s)\<close> on a string (\<open>None\<close> for a
  \<^verbatim>\<open>ValueError\<close>), \<^verbatim>\<open>float(i)\<close> on an int (\<open>None\<close> for an \<^verbatim>\<open>OverflowError\<close>),
  \<^verbatim>\<open>bool(f)\<close>, \<^verbatim>\<open>str(f)\<close>, \<^verbatim>\<open>f == g\<close> and \<^verbatim>\<open>f == i\<close>; and \<^verbatim>\<open>str\<close> of a list or a
  dict.
\<close>

record 'f pyapi =
  float_of_str :: "string \<Rightarrow> 'f option"
  float_of_int :: "int \<Rightarrow> 'f option"
  float_nonzero :: "'f \<Rightarrow> bool"
  float_str :: "'f \<Rightarrow> string"
  float_eq :: "'f \<Rightarrow> 'f \<Rightarrow> bool"
  float_eq_int :: "'f \<Rightarrow> int \<Rightarrow> bool"
  container_str :: "'f pyval \<Rightarrow> string"

subsection \<open>String primitives\<close>

text \<open>\<^verbatim>\<open>str.lower\<close> on ASCII letters.\<close>

definition lower_char :: "char \<Rightarrow> char" where
  "lower_char c =
     (let n = (of_char c :: int) in if 65 \<le> n \<and> n \<le> 90 then char_of (n + 32) else c)"

definition py_lower :: "string \<Rightarrow> string" where
  "py_lower s = map lower_char s"

text \<open>
  The ASCII characters that \<^verbatim>\<open>str.strip()\<close> removes and the \<^verbatim>\<open>\s\<close> of \<^verbatim>\<open>re\<close> matches:
  codes 9 to 13 and 28 to 32.
\<close>

definition is_space :: "char \<Rightarrow> bool" where
  "is_space c = (let n = (of_char c :: int) in (9 \<le> n \<and> n \<le> 13) \<or> (28 \<le> n \<and> n \<le> 32))"

definition lstrip_with :: "(char \<Rightarrow> bool) \<Rightarrow> string \<Rightarrow> string" where
  "lstrip_with p s = dropWhile p s"

definition rstrip_with :: "(char \<Rightarrow> bool) \<Rightarrow> string \<Rightarrow> string" where
  "rstrip_with p s = rev (dropWhile p (rev s))"

text \<open>\<^verbatim>\<open>s.strip()\<close>, \<^verbatim>\<open>s.strip("-")\<close>, \<^verbatim>\<open>s.rstrip(";")\<close> and \<^verbatim>\<open>s.replace(",", ".")\<close>.\<close>

definition py_strip :: "string \<Rightarrow> string" where
  "py_strip s = rstrip_with is_space (lstrip_with is_space s)"

definition strip_dash :: "string \<Rightarrow> string" where
  "strip_dash s = rstrip_with (\<lambda>c. c = CHR ''-'') (lstrip_with (\<lambda>c. c = CHR ''-'') s)"

definition rstrip_semicolon :: "string \<Rightarrow> string" where
  "rstrip_semicolon s = rstrip_with (\<lambda>c. c = CHR '';'') s"

definition comma_to_point :: "string \<Rightarrow> string" where
  "comma_to_point s = map (\<lambda>c. if c = CHR '','' then CHR ''.'' else c) s"

text \<open>\<^verbatim>\<open>str(i)\<close> of an int: a sign and the decimal digits.\<close>

function digits :: "int \<Rightarrow> string" where
  "digits n =
     (if n < 10 then [char_of (48 + n)]
      else digits (n div 10) @ [char_of (48 + n mod 10)])"
  by pat_completeness auto
termination
  by (relation "measure nat") auto

declare digits.simps [simp del]

definition int_str :: "int \<Rightarrow> string" where
  "int_str i = (if i < 0 then CHR ''-'' # digits (- i) else digits i)"

text \<open>
  A regular expression under \<^verbatim>\<open>(?i)\<close> matches a lowercase ASCII literal against the
  text whatever its case: \<open>ci_prefix\<close> gives the text after the literal.
\<close>

definition ci_prefix :: "string \<Rightarrow> string \<Rightarrow> string option" where
  "ci_prefix lit s =
     (if py_lower (take (length lit) s) = lit then Some (drop (length lit) s) else None)"

definition strip_prefix :: "string \<Rightarrow> string \<Rightarrow> string option" where
  "strip_prefix lit s =
     (if take (length lit) s = lit then Some (drop (length lit) s) else None)"

text \<open>
  The \<^verbatim>\<open>\w\<close> of \<^verbatim>\<open>re\<close>: letters, digits and the underscore; a byte beyond ASCII counts
  as part of a letter.
\<close>

definition is_word :: "char \<Rightarrow> bool" where
  "is_word c =
     (let n = (of_char c :: int) in
        (48 \<le> n \<and> n \<le> 57) \<or> (65 \<le> n \<and> n \<le> 90) \<or> n = 95 \<or> (97 \<le> n \<and> n \<le> 122)
        \<or> 128 \<le> n)"

definition at_space :: "string \<Rightarrow> bool" where
  "at_space s = (case s of [] \<Rightarrow> False | c # _ \<Rightarrow> is_space c)"

subsection \<open>Values: truth, \<^verbatim>\<open>or\<close>, \<^verbatim>\<open>str\<close>, \<^verbatim>\<open>float\<close>, \<^verbatim>\<open>get\<close>\<close>

definition truthy :: "'f pyapi \<Rightarrow> 'f pyval \<Rightarrow> bool" where
  "truthy api v =
     (case v of
        PNone \<Rightarrow> False
      | PBool b \<Rightarrow> b
      | PInt i \<Rightarrow> i \<noteq> 0
      | PFloat f \<Rightarrow> float_nonzero api f
      | PStr s \<Rightarrow> s \<noteq> []
      | PList xs \<Rightarrow> xs \<noteq> []
      | PDict kvs \<Rightarrow> kvs \<noteq> [])"

text \<open>\<^verbatim>\<open>a or b\<close>: \<open>a\<close> when it is true, else \<open>b\<close>.\<close>

definition py_or :: "'f pyapi \<Rightarrow> 'f pyval \<Rightarrow> 'f pyval \<Rightarrow> 'f pyval" where
  "py_or api a b = (if truthy api a then a else b)"

text \<open>\<^verbatim>\<open>str(v)\<close>, which is also what an f-string writes for \<^verbatim>\<open>{v}\<close>.\<close>

definition py_str :: "'f pyapi \<Rightarrow> 'f pyval \<Rightarrow> string" where
  "py_str api v =
     (case v of
        PNone \<Rightarrow> ''None''
      | PBool b \<Rightarrow> (if b then ''True'' else ''False'')
      | PInt i \<Rightarrow> int_str i
      | PFloat f \<Rightarrow> float_str api f
      | PStr s \<Rightarrow> s
      | PList xs \<Rightarrow> container_str api v
      | PDict kvs \<Rightarrow> container_str api v)"

text \<open>
  \<^verbatim>\<open>float(v)\<close>; \<open>None\<close> when it raises (\<^verbatim>\<open>ValueError\<close> on a string, \<^verbatim>\<open>TypeError\<close> on
  \<^verbatim>\<open>None\<close>, a list or a dict, \<^verbatim>\<open>OverflowError\<close> on an int).
\<close>

definition py_float :: "'f pyapi \<Rightarrow> 'f pyval \<Rightarrow> 'f option" where
  "py_float api v =
     (case v of
        PStr s \<Rightarrow> float_of_str api s
      | PInt i \<Rightarrow> float_of_int api i
      | PBool b \<Rightarrow> float_of_int api (if b then 1 else 0)
      | PFloat f \<Rightarrow> Some f
      | _ \<Rightarrow> None)"

text \<open>\<^verbatim>\<open>d.get(k)\<close> and \<^verbatim>\<open>d.get(k, default)\<close>, on a raw dict and on an item alike.\<close>

definition dict_get :: "(string \<times> 'f pyval) list \<Rightarrow> string \<Rightarrow> 'f pyval" where
  "dict_get d k = (case map_of d k of None \<Rightarrow> PNone | Some v \<Rightarrow> v)"

definition dict_get_default ::
  "(string \<times> 'f pyval) list \<Rightarrow> string \<Rightarrow> 'f pyval \<Rightarrow> 'f pyval" where
  "dict_get_default d k dflt = (case map_of d k of None \<Rightarrow> dflt | Some v \<Rightarrow> v)"

text \<open>\<^verbatim>\<open>item[k] = v\<close> and \<^verbatim>\<open>item.pop(k, None)\<close>.\<close>

definition item_set :: "string \<Rightarrow> 'f pyval \<Rightarrow> 'f item \<Rightarrow> 'f item" where
  "item_set k v item = AList.update k v item"

definition item_pop :: "string \<Rightarrow> 'f item \<Rightarrow> 'f item" where
  "item_pop k item = AList.delete k item"

subsection \<open>The blob walker\<close>

text \<open>
  \<^verbatim>\<open>{"name", "lat", "lng"} <= keys\<close>: every key of the template is among the keys.
\<close>

definition issubset :: "string list \<Rightarrow> string list \<Rightarrow> bool" where
  "issubset template keys = list_all (\<lambda>t. List.member keys t) template"

text \<open>
  The test of \<^verbatim>\<open>walk\<close> on a node: a non-empty list whose first element is a dict with
  the keys, lowercased, of one of the four templates.
\<close>

definition looks_like_locations :: "'f pyval \<Rightarrow> bool" where
  "looks_like_locations node =
     (case node of
        PList (PDict sample # rest) \<Rightarrow>
          (let keys = map (\<lambda>kv. py_lower (fst kv)) sample in
             issubset [''name'', ''lat'', ''lng''] keys
           \<or> issubset [''nom'', ''latitude'', ''longitude''] keys
           \<or> issubset [''title'', ''coordinates''] keys
           \<or> issubset [''adresse'', ''ville''] keys)
      | _ \<Rightarrow> False)"

text \<open>
  \<^verbatim>\<open>walk\<close> appends to the list \<^verbatim>\<open>found\<close> of the enclosing function; here it takes the
  list and returns it extended. The recursion limit of the interpreter is not part of
  the model.
\<close>

fun walk :: "'f pyval list \<Rightarrow> 'f pyval \<Rightarrow> 'f pyval list" where
  "walk found (PList xs) =
     fold (\<lambda>v acc. walk acc v) xs
       (if looks_like_locations (PList xs) then found @ xs else found)"
| "walk found (PDict kvs) = fold (\<lambda>v acc. walk acc v) (map snd kvs) found"
| "walk found _ = found"

definition extract_locations_from_blob :: "'f pyval \<Rightarrow> 'f pyval list" where
  "extract_locations_from_blob blob = walk [] blob"

text \<open>
  The words of the specification: every array below the blob (the blob included), in
  the order of a pre-order traversal, and the elements of those that look like a list
  of locations.
\<close>

fun descendants :: "'f pyval \<Rightarrow> 'f pyval list" where
  "descendants (PList xs) = PList xs # concat (map descendants xs)"
| "descendants (PDict kvs) = PDict kvs # concat (map descendants (map snd kvs))"
| "descendants v = [v]"

definition elements :: "'f pyval \<Rightarrow> 'f pyval list" where
  "elements node = (case node of PList xs \<Rightarrow> xs | _ \<Rightarrow> [])"

definition matching_arrays :: "'f pyval \<Rightarrow> 'f pyval list" where
  "matching_arrays blob = filter looks_like_locations (descendants blob)"

subsection \<open>Cleaning the display name\<close>

text \<open>
  The character class of the first pattern holds \<^verbatim>\<open>-\<close>, \<^verbatim>\<open>:\<close> and three characters
  beyond ASCII, U+00E2, U+20AC and U+201C (the bytes of an en dash read in another
  encoding). \<open>sep_class\<close> matches one of them at the head of the text and tells whether
  it is a letter (U+00E2 is).
\<close>

definition sep_class :: "string \<Rightarrow> (bool \<times> string) option" where
  "sep_class s =
     (case s of
        [] \<Rightarrow> None
      | c # r \<Rightarrow>
          if c = CHR ''-'' \<or> c = CHR '':'' then Some (False, r)
          else (case strip_prefix [CHR 0xC3, CHR 0xA2] s of
                  Some r1 \<Rightarrow> Some (True, r1)
                | None \<Rightarrow>
                   (case strip_prefix [CHR 0xE2, CHR 0x82, CHR 0xAC] s of
                      Some r2 \<Rightarrow> Some (False, r2)
                    | None \<Rightarrow>
                       (case strip_prefix [CHR 0xE2, CHR 0x80, CHR 0x9C] s of
                          Some r3 \<Rightarrow> Some (False, r3)
                        | None \<Rightarrow> None))))"

text \<open>
  A match of \<^verbatim>\<open>(?i)\b(saham\s*bank)\b\s*[...]\s*\<close> at the head of the text, the word
  boundary before it being the caller's to check: the text after the match, and
  whether the last character matched is a word character. Each \<^verbatim>\<open>\s*\<close> takes all the
  spaces there are, since what follows it never matches a space. The \<^verbatim>\<open>\b\<close> after
  \<^verbatim>\<open>bank\<close> holds before a space; with no space, the next character is the one of the
  class, and \<^verbatim>\<open>\b\<close> holds when that one is not a letter.
\<close>

definition match_brand :: "string \<Rightarrow> (bool \<times> string) option" where
  "match_brand s =
     (case ci_prefix ''saham'' s of
        None \<Rightarrow> None
      | Some r1 \<Rightarrow>
         (case ci_prefix ''bank'' (dropWhile is_space r1) of
            None \<Rightarrow> None
          | Some r2 \<Rightarrow>
             (case sep_class (dropWhile is_space r2) of
                None \<Rightarrow> None
              | Some (w, r3) \<Rightarrow>
                  if w \<and> \<not> at_space r2 then None
                  else Some (if at_space r3 then False else w, dropWhile is_space r3))))"

text \<open>A match of \<^verbatim>\<open>(?i)\bagence\s+\<close> at the head of the text: the text after it.\<close>

definition match_agence :: "string \<Rightarrow> string option" where
  "match_agence s =
     (case ci_prefix ''agence'' s of
        None \<Rightarrow> None
      | Some r \<Rightarrow> if at_space r then Some (dropWhile is_space r) else None)"

text \<open>
  \<^verbatim>\<open>re.sub(pattern, "", name)\<close> for the two patterns: scan from the left, drop each
  match and go on after it. \<open>prev\<close> says whether the character before the position is
  a word character; both patterns start with a letter, so \<^verbatim>\<open>\b\<close> holds there exactly
  when it is not.
\<close>

function sub_brand :: "bool \<Rightarrow> string \<Rightarrow> string" where
  "sub_brand prev [] = []"
| "sub_brand prev (c # cs) =
     (case (if prev then None else match_brand (c # cs)) of
        Some (w, rest) \<Rightarrow> sub_brand w rest
      | None \<Rightarrow> c # sub_brand (is_word c) cs)"
  by pat_completeness auto
termination
proof (relation "measure (\<lambda>(prev, s). length s)")
  show "wf (measure (\<lambda>(prev, s). length s))" by simp
next
  fix prev :: bool and c :: char and cs x2 x y
  assume a: "(if prev then None else match_brand (c # cs)) = Some x2" and b: "(x, y) = x2"
  have m: "match_brand (c # cs) = Some (x, y)"
    using a b by (simp split: if_splits)
  obtain r1 where r1: "ci_prefix ''saham'' (c # cs) = Some r1"
    using m by (auto simp: match_brand_def split: option.splits)
  have "length r1 < length (c # cs)"
    using r1 by (auto simp: ci_prefix_def split: if_splits)
  moreover obtain r2 where r2: "ci_prefix ''bank'' (dropWhile is_space r1) = Some r2"
    using m r1 by (auto simp: match_brand_def split: option.splits)
  have "length r2 \<le> length (dropWhile is_space r1)"
    using r2 by (auto simp: ci_prefix_def split: if_splits)
  moreover have "length (dropWhile is_space r1) \<le> length r1"
    by (rule length_dropWhile_le)
  moreover obtain w r3 where r3: "sep_class (dropWhile is_space r2) = Some (w, r3)"
    and y: "y = dropWhile is_space r3"
    using m r1 r2 by (auto simp: match_brand_def split: option.splits if_splits)
  have "length r3 \<le> length (dropWhile is_space r2)"
    using r3
    by (auto simp: sep_class_def strip_prefix_def split: list.splits option.splits if_splits)
  moreover have "length (dropWhile is_space r2) \<le> length r2"
    by (rule length_dropWhile_le)
  moreover have "length y \<le> length r3"
    unfolding y by (rule length_dropWhile_le)
  ultimately show "((x, y), prev, c # cs) \<in> measure (\<lambda>(prev, s). length s)"
    by simp
next
  fix prev :: bool and c :: char and cs :: string
  show "((is_word c, cs), prev, c # cs) \<in> measure (\<lambda>(prev, s). length s)"
    by simp
qed

function sub_agence :: "bool \<Rightarrow> string \<Rightarrow> string" where
  "sub_agence prev [] = []"
| "sub_agence prev (c # cs) =
     (case (if prev then None else match_agence (c # cs)) of
        Some rest \<Rightarrow> sub_agence False rest
      | None \<Rightarrow> c # sub_agence (is_word c) cs)"
  by pat_completeness auto
termination
proof (relation "measure (\<lambda>(prev, s). length s)")
  show "wf (measure (\<lambda>(prev, s). length s))" by simp
next
  fix prev :: bool and c :: char and cs x2
  assume a: "(if prev then None else match_agence (c # cs)) = Some x2"
  have m: "match_agence (c # cs) = Some x2"
    using a by (simp split: if_splits)
  obtain r where r: "ci_prefix ''agence'' (c # cs) = Some r" and x2: "x2 = dropWhile is_space r"
    using m by (auto simp: match_agence_def split: option.splits if_splits)
  have "length r < length (c # cs)"
    using r by (auto simp: ci_prefix_def split: if_splits)
  moreover have "length x2 \<le> length r"
    unfolding x2 by (rule length_dropWhile_le)
  ultimately show "((False, x2), prev, c # cs) \<in> measure (\<lambda>(prev, s). length s)"
    by simp
next
  fix prev :: bool and c :: char and cs :: string
  show "((is_word c, cs), prev, c # cs) \<in> measure (\<lambda>(prev, s). length s)"
    by simp
qed

text \<open>The two substitutions of \<^verbatim>\<open>_dict_to_item\<close>, each followed by \<^verbatim>\<open>strip()\<close>.\<close>

definition clean_branch :: "string \<Rightarrow> string" where
  "clean_branch name = py_strip (sub_agence False (py_strip (sub_brand False name)))"

subsection \<open>\<^verbatim>\<open>_dict_to_item\<close>\<close>

text \<open>
  \<^verbatim>\<open>DictParser.parse\<close> belongs to the framework and is a parameter \<open>dp\<close> here: it takes
  the raw record and returns an item or raises.

  The first lines pick the coordinates of the raw record with fallback chains of
  \<^verbatim>\<open>or\<close> and turn the comma of a string into a point.
\<close>

definition raw_lat :: "'f pyapi \<Rightarrow> (string \<times> 'f pyval) list \<Rightarrow> 'f pyval" where
  "raw_lat api d =
     py_or api (py_or api (dict_get d ''lat'') (dict_get d ''latitude''))
       (dict_get d ''Latitude'')"

definition raw_lon :: "'f pyapi \<Rightarrow> (string \<times> 'f pyval) list \<Rightarrow> 'f pyval" where
  "raw_lon api d =
     py_or api
       (py_or api (py_or api (dict_get d ''lng'') (dict_get d ''lon''))
          (dict_get d ''longitude''))
       (dict_get d ''Longitude'')"

definition decimal_point :: "'f pyval \<Rightarrow> 'f pyval" where
  "decimal_point v = (case v of PStr s \<Rightarrow> PStr (comma_to_point s) | _ \<Rightarrow> v)"

text \<open>
  Name and branch. \<^verbatim>\<open>re.sub\<close> raises \<^verbatim>\<open>TypeError\<close> on a name that is true and not a
  string.
\<close>

definition display_name ::
  "'f pyapi \<Rightarrow> (string \<times> 'f pyval) list \<Rightarrow> 'f item \<Rightarrow> 'f pyval" where
  "display_name api d item =
     py_or api
       (py_or api (py_or api (dict_get item ''name'') (dict_get d ''name''))
          (dict_get d ''nom''))
       (dict_get d ''title'')"

definition name_cleanup ::
  "'f pyapi \<Rightarrow> (string \<times> 'f pyval) list \<Rightarrow> 'f item \<Rightarrow> pyerr + 'f item" where
  "name_cleanup api d item =
     (let name = display_name api d item in
        if truthy api name then
          (case name of
             PStr s \<Rightarrow>
               Inr (item_pop ''name'' (item_set ''branch'' (PStr (clean_branch s)) item))
           | _ \<Rightarrow> Inl TypeError)
        else Inr item)"

definition address_fields ::
  "'f pyapi \<Rightarrow> (string \<times> 'f pyval) list \<Rightarrow> 'f item \<Rightarrow> 'f item" where
  "address_fields api d item =
     (let item1 = item_set ''street_address''
            (py_or api
               (py_or api
                  (py_or api (dict_get item ''street_address'') (dict_get d ''address''))
                  (dict_get d ''adresse''))
               (dict_get d ''street'')) item;
          item2 = item_set ''city''
            (py_or api (py_or api (dict_get item1 ''city'') (dict_get d ''city''))
               (dict_get d ''ville'')) item1;
          item3 = item_set ''state''
            (py_or api (py_or api (dict_get item2 ''state'') (dict_get d ''state''))
               (dict_get d ''region'')) item2
      in item_set ''postcode''
           (py_or api
              (py_or api (py_or api (dict_get item3 ''postcode'') (dict_get d ''postcode''))
                 (dict_get d ''cp''))
              (dict_get d ''zip'')) item3)"

definition contact_fields ::
  "'f pyapi \<Rightarrow> (string \<times> 'f pyval) list \<Rightarrow> 'f item \<Rightarrow> 'f item" where
  "contact_fields api d item =
     (let item1 = item_set ''phone''
            (py_or api
               (py_or api (py_or api (dict_get item ''phone'') (dict_get d ''phone''))
                  (dict_get d ''tel''))
               (dict_get d ''telephone'')) item
      in item_set ''email''
           (py_or api (dict_get item1 ''email'') (dict_get d ''email'')) item1)"

text \<open>
  The coordinates: both conversions are in one \<^verbatim>\<open>try\<close>, whose \<^verbatim>\<open>except\<close> passes, so
  a latitude already stored stays when the longitude fails.
\<close>

definition geo :: "'f pyapi \<Rightarrow> 'f pyval \<Rightarrow> 'f pyval \<Rightarrow> 'f item \<Rightarrow> 'f item" where
  "geo api lat lon item =
     (if truthy api lat \<and> truthy api lon then
        (case py_float api lat of
           None \<Rightarrow> item
         | Some f \<Rightarrow>
            (let item1 = item_set ''lat'' (PFloat f) item in
               case py_float api lon of
                 None \<Rightarrow> item1
               | Some g \<Rightarrow> item_set ''lon'' (PFloat g) item1))
      else item)"

text \<open>The identifier: the f-string over city and branch, stripped of \<^verbatim>\<open>-\<close>, comes last.\<close>

definition synth_ref :: "'f pyapi \<Rightarrow> 'f item \<Rightarrow> string" where
  "synth_ref api item =
     strip_dash
       (py_str api (dict_get_default item ''city'' (PStr []))
        @ ''-'' @ py_str api (dict_get_default item ''branch'' (PStr [])))"

definition ids :: "'f pyapi \<Rightarrow> (string \<times> 'f pyval) list \<Rightarrow> 'f item \<Rightarrow> 'f item" where
  "ids api d item =
     item_set ''ref''
       (py_or api
          (py_or api
             (py_or api (py_or api (dict_get d ''id'') (dict_get d ''ref''))
                (dict_get d ''code''))
             (dict_get d ''slug''))
          (PStr (synth_ref api item))) item"

text \<open>
  Modelled from the spec: \<^verbatim>\<open>apply_category\<close> and \<^verbatim>\<open>Categories.BANK\<close> of
  \<^verbatim>\<open>locations/categories.py\<close> are missing; the specification gives the record a
  category that is the fixed tag bank.
\<close>

definition apply_category :: "'f item \<Rightarrow> 'f item" where
  "apply_category item = item_set ''category'' (PStr ''bank'') item"

definition dict_to_item ::
  "'f pyapi \<Rightarrow> ('f pyval \<Rightarrow> pyerr + 'f item) \<Rightarrow> 'f pyval \<Rightarrow> pyerr + 'f item" where
  "dict_to_item api dp raw =
     (case raw of
        PDict d \<Rightarrow>
          (let lat = decimal_point (raw_lat api d);
               lon = decimal_point (raw_lon api d)
           in case dp raw of
                Inl e \<Rightarrow> Inl e
              | Inr item \<Rightarrow>
                 (case name_cleanup api d item of
                    Inl e \<Rightarrow> Inl e
                  | Inr item1 \<Rightarrow>
                     Inr (apply_category
                            (ids api d
                               (geo api lat lon
                                  (contact_fields api d (address_fields api d item1)))))))
      | _ \<Rightarrow> Inl AttributeError)"

subsection \<open>\<^verbatim>\<open>parse_locator\<close>\<close>

text \<open>
  \<^verbatim>\<open>_json_sanitize\<close>: the pattern \<^verbatim>\<open></script>$\<close> is matched whatever the case, at the end
  of a text that \<^verbatim>\<open>strip()\<close> has left without a final newline.
\<close>

definition json_sanitize :: "string \<Rightarrow> string" where
  "json_sanitize text =
     (let t = py_strip (rstrip_semicolon (py_strip text)) in
        if length ''</script>'' \<le> length t
           \<and> py_lower (drop (length t - length ''</script>'') t) = ''</script>''
        then take (length t - length ''</script>'') t
        else t)"

text \<open>
  The response gives the texts of the two XPath queries. The five regular expressions
  are named; \<open>finditer pat s\<close> is the list of the groups 1 of the matches of
  \<^verbatim>\<open>re.finditer\<close>, and \<open>loads\<close> is \<^verbatim>\<open>json.loads\<close>, \<open>None\<close> when it raises. Both are
  parameters.
\<close>

record response =
  typed_script_texts :: "string list"
  script_texts :: "string list"

datatype pattern = NUXT | NEXT_DATA | APOLLO_STATE | INITIAL_STATE | OBJECT_ARRAY

definition ssr_patterns :: "pattern list" where
  "ssr_patterns = [NUXT, NEXT_DATA, APOLLO_STATE, INITIAL_STATE]"

text \<open>One candidate of an SSR pattern: the \<^verbatim>\<open>except\<close> adds nothing.\<close>

definition ssr_candidate :: "(string \<Rightarrow> 'f pyval option) \<Rightarrow> string \<Rightarrow> 'f pyval list" where
  "ssr_candidate loads c =
     (case loads (json_sanitize c) of
        None \<Rightarrow> []
      | Some blob \<Rightarrow> extract_locations_from_blob blob)"

definition has_any_key :: "(string \<times> 'f pyval) list \<Rightarrow> string list \<Rightarrow> bool" where
  "has_any_key sample ks = list_ex (\<lambda>k. List.member (map fst sample) k) ks"

text \<open>One candidate of the heuristic: an array whose first object has a name and a city.\<close>

definition array_candidate :: "(string \<Rightarrow> 'f pyval option) \<Rightarrow> string \<Rightarrow> 'f pyval list" where
  "array_candidate loads c =
     (case loads (json_sanitize c) of
        None \<Rightarrow> []
      | Some arr \<Rightarrow>
         (case arr of
            PList (PDict sample # rest) \<Rightarrow>
              if has_any_key sample [''name'', ''nom'', ''title'']
                 \<and> has_any_key sample [''city'', ''ville'', ''locality'']
              then PDict sample # rest else []
          | _ \<Rightarrow> []))"

definition script_locations ::
  "(pattern \<Rightarrow> string \<Rightarrow> string list) \<Rightarrow> (string \<Rightarrow> 'f pyval option) \<Rightarrow> string
   \<Rightarrow> 'f pyval list" where
  "script_locations finditer loads s =
     concat (map (\<lambda>pat. concat (map (ssr_candidate loads) (finditer pat s))) ssr_patterns)
     @ concat (map (array_candidate loads) (finditer OBJECT_ARRAY s))"

definition collect_locations ::
  "(pattern \<Rightarrow> string \<Rightarrow> string list) \<Rightarrow> (string \<Rightarrow> 'f pyval option) \<Rightarrow> string list
   \<Rightarrow> 'f pyval list" where
  "collect_locations finditer loads scripts =
     concat (map (script_locations finditer loads) scripts)"

text \<open>
  The key of the set \<^verbatim>\<open>seen\<close>: the \<^verbatim>\<open>ref\<close> when it is true, else the tuple. A list or a
  dict cannot be hashed; \<open>py_eq\<close> is \<^verbatim>\<open>==\<close> on the values that can.
\<close>

datatype 'f dkey = KRef "'f pyval" | KTuple string string "'f pyval"

definition dedup_key :: "'f pyapi \<Rightarrow> 'f item \<Rightarrow> 'f dkey" where
  "dedup_key api item =
     (let r = dict_get item ''ref'' in
        if truthy api r then KRef r
        else KTuple (py_str api (dict_get item ''lat'')) (py_str api (dict_get item ''lon''))
               (py_or api (dict_get item ''name'') (dict_get item ''branch'')))"

definition hashable :: "'f pyval \<Rightarrow> bool" where
  "hashable v = (case v of PList xs \<Rightarrow> False | PDict kvs \<Rightarrow> False | _ \<Rightarrow> True)"

definition key_hashable :: "'f dkey \<Rightarrow> bool" where
  "key_hashable k = (case k of KRef v \<Rightarrow> hashable v | KTuple a b v \<Rightarrow> hashable v)"

definition as_int :: "'f pyval \<Rightarrow> int option" where
  "as_int v =
     (case v of PBool b \<Rightarrow> Some (if b then 1 else 0) | PInt i \<Rightarrow> Some i | _ \<Rightarrow> None)"

definition py_eq :: "'f pyapi \<Rightarrow> 'f pyval \<Rightarrow> 'f pyval \<Rightarrow> bool" where
  "py_eq api a b =
     (case (as_int a, as_int b) of
        (Some i, Some j) \<Rightarrow> i = j
      | (Some i, None) \<Rightarrow> (case b of PFloat g \<Rightarrow> float_eq_int api g i | _ \<Rightarrow> False)
      | (None, Some j) \<Rightarrow> (case a of PFloat f \<Rightarrow> float_eq_int api f j | _ \<Rightarrow> False)
      | (None, None) \<Rightarrow>
         (case a of
            PNone \<Rightarrow> b = PNone
          | PStr s \<Rightarrow> b = PStr s
          | PFloat f \<Rightarrow> (case b of PFloat g \<Rightarrow> float_eq api f g | _ \<Rightarrow> False)
          | _ \<Rightarrow> False))"

definition key_eq :: "'f pyapi \<Rightarrow> 'f dkey \<Rightarrow> 'f dkey \<Rightarrow> bool" where
  "key_eq api k1 k2 =
     (case k1 of
        KRef a \<Rightarrow> (case k2 of KRef b \<Rightarrow> py_eq api a b | KTuple x y z \<Rightarrow> False)
      | KTuple x1 y1 z1 \<Rightarrow>
         (case k2 of
            KRef b \<Rightarrow> False
          | KTuple x2 y2 z2 \<Rightarrow> x1 = x2 \<and> y1 = y2 \<and> py_eq api z1 z2))"

definition key_in :: "'f pyapi \<Rightarrow> 'f dkey \<Rightarrow> 'f dkey list \<Rightarrow> bool" where
  "key_in api k seen = list_ex (\<lambda>e. key_eq api e k) seen"

text \<open>
  The loop over \<^verbatim>\<open>locations\<close>. The generator yields item after item; an exception
  ends it. The result is the list of the items yielded and the exception, if any.
  An item is false when it has no field set.
\<close>

fun emit ::
  "'f pyapi \<Rightarrow> ('f pyval \<Rightarrow> pyerr + 'f item) \<Rightarrow> 'f dkey list \<Rightarrow> 'f pyval list
   \<Rightarrow> 'f item list \<times> pyerr option" where
  "emit api dp seen [] = ([], None)"
| "emit api dp seen (raw # rest) =
     (case dict_to_item api dp raw of
        Inl e \<Rightarrow> ([], Some e)
      | Inr item \<Rightarrow>
          if item = [] then emit api dp seen rest
          else (let key = dedup_key api item in
                  if \<not> key_hashable key then ([], Some TypeError)
                  else if key_in api key seen then emit api dp seen rest
                  else (case emit api dp (key # seen) rest of
                          (out, err) \<Rightarrow> (item # out, err))))"

definition parse_locator ::
  "'f pyapi \<Rightarrow> ('f pyval \<Rightarrow> pyerr + 'f item) \<Rightarrow> (pattern \<Rightarrow> string \<Rightarrow> string list)
   \<Rightarrow> (string \<Rightarrow> 'f pyval option) \<Rightarrow> response \<Rightarrow> 'f item list \<times> pyerr option" where
  "parse_locator api dp finditer loads resp =
     emit api dp []
       (collect_locations finditer loads (typed_script_texts resp @ script_texts resp))"

subsection \<open>Notions of the specification\<close>

text \<open>
  The normalized items of a list of raw records: the items \<^verbatim>\<open>_dict_to_item\<close> returns
  for them, in order.
\<close>

definition normalized_items ::
  "'f pyapi \<Rightarrow> ('f pyval \<Rightarrow> pyerr + 'f item) \<Rightarrow> 'f pyval list \<Rightarrow> 'f item list" where
  "normalized_items api dp raws =
     concat (map (\<lambda>raw. case dict_to_item api dp raw of Inl e \<Rightarrow> [] | Inr item \<Rightarrow> [item]) raws)"

text \<open>A name that is a string or \<^verbatim>\<open>None\<close>.\<close>

definition text_or_none :: "'f pyval \<Rightarrow> bool" where
  "text_or_none v = (case v of PNone \<Rightarrow> True | PStr s \<Rightarrow> True | _ \<Rightarrow> False)"

text \<open>
  The key of an item whose \<^verbatim>\<open>ref\<close> is false: the texts of its latitude and longitude
  and its name, or its branch when the name is false.
\<close>

definition has_triple ::
  "'f pyapi \<Rightarrow> string \<Rightarrow> string \<Rightarrow> 'f pyval \<Rightarrow> 'f item \<Rightarrow> bool" where
  "has_triple api a b n item =
     (\<not> truthy api (dict_get item ''ref'')
      \<and> py_str api (dict_get item ''lat'') = a
      \<and> py_str api (dict_get item ''lon'') = b
      \<and> py_or api (dict_get item ''name'') (dict_get item ''branch'') = n)"

text \<open>
  The keys on which \<^verbatim>\<open>==\<close> is plain equality of values: a string \<^verbatim>\<open>ref\<close>, and a tuple
  whose name is a string or \<^verbatim>\<open>None\<close>.
\<close>

definition plain_key :: "'f dkey \<Rightarrow> bool" where
  "plain_key k =
     (case k of
        KRef v \<Rightarrow> (case v of PStr s \<Rightarrow> True | _ \<Rightarrow> False)
      | KTuple a b n \<Rightarrow> text_or_none n)"

text \<open>
  On the \<^verbatim>\<open>ref\<close>s of a list of items, \<^verbatim>\<open>==\<close> with the value \<open>v\<close> is identity with \<open>v\<close>: no
  item has a \<^verbatim>\<open>ref\<close> that \<^verbatim>\<open>==\<close> takes for \<open>v\<close> and is another value (as \<^verbatim>\<open>True\<close> or
  \<^verbatim>\<open>1.0\<close> for \<^verbatim>\<open>1\<close>), and \<open>v\<close> is equal to itself. It is so for every string \<open>v\<close>.
\<close>

definition eq_is_identity :: "'f pyapi \<Rightarrow> 'f pyval \<Rightarrow> 'f item list \<Rightarrow> bool" where
  "eq_is_identity api v items =
     list_all (\<lambda>it. py_eq api (dict_get it ''ref'') v = (dict_get it ''ref'' = v)) items"

text \<open>\<^verbatim>\<open>re.finditer\<close> with one candidate of one pattern on one script removed.\<close>

definition without_candidate ::
  "(pattern \<Rightarrow> string \<Rightarrow> string list) \<Rightarrow> pattern \<Rightarrow> string \<Rightarrow> string list
   \<Rightarrow> pattern \<Rightarrow> string \<Rightarrow> string list" where
  "without_candidate finditer pat s ms =
     (\<lambda>pat' s'. if pat' = pat \<and> s' = s then ms else finditer pat' s')"

subsection \<open>A concrete environment for the examples\<close>

text \<open>
  The examples need float primitives that compute. Here a float is the decimal number
  it was read from, an integer and the number of its fraction digits, without trailing
  zeros. \<open>decimal_of_str\<close> reads a sign, digits and a fraction; \<open>decimal_str\<close> writes
  them back in positional notation. On the inputs of the examples they agree with
  CPython's \<^verbatim>\<open>float\<close> and \<^verbatim>\<open>str\<close>.
\<close>

type_synonym decimal = "int \<times> nat"

definition is_digit :: "char \<Rightarrow> bool" where
  "is_digit c = (let n = (of_char c :: int) in 48 \<le> n \<and> n \<le> 57)"

definition digits_value :: "string \<Rightarrow> int" where
  "digits_value ds = foldl (\<lambda>n c. 10 * n + (of_char c - 48)) 0 ds"

fun trim_zeros :: "int \<Rightarrow> nat \<Rightarrow> decimal" where
  "trim_zeros m 0 = (m, 0)"
| "trim_zeros m (Suc k) = (if m mod 10 = 0 then trim_zeros (m div 10) k else (m, Suc k))"

definition decimal_of_str :: "string \<Rightarrow> decimal option" where
  "decimal_of_str s =
     (let t = py_strip s;
          signed = (t \<noteq> [] \<and> (hd t = CHR ''-'' \<or> hd t = CHR ''+''));
          u = (if signed then tl t else t);
          ip = takeWhile is_digit u;
          r = dropWhile is_digit u;
          fp = (if r \<noteq> [] \<and> hd r = CHR ''.'' then tl r else r)
      in if (ip \<noteq> [] \<or> (r \<noteq> [] \<and> fp \<noteq> [])) \<and> list_all is_digit fp
            \<and> (r = [] \<or> hd r = CHR ''.'')
         then Some (trim_zeros
                      ((if signed \<and> hd t = CHR ''-'' then - 1 else 1)
                       * digits_value (ip @ fp))
                      (length fp))
         else None)"

definition decimal_str :: "decimal \<Rightarrow> string" where
  "decimal_str x =
     (case x of
        (m, k) \<Rightarrow>
          (let a = \<bar>m\<bar>;
               fs = digits (a mod 10 ^ k)
           in (if m < 0 then ''-'' else [])
              @ digits (a div 10 ^ k) @ ''.''
              @ (if k = 0 then ''0'' else replicate (k - length fs) (CHR ''0'') @ fs)))"

fun join_with :: "string \<Rightarrow> string list \<Rightarrow> string" where
  "join_with sep [] = []"
| "join_with sep [x] = x"
| "join_with sep (x # y # ys) = x @ sep @ join_with sep (y # ys)"

fun decimal_repr :: "decimal pyval \<Rightarrow> string" where
  "decimal_repr PNone = ''None''"
| "decimal_repr (PBool b) = (if b then ''True'' else ''False'')"
| "decimal_repr (PInt i) = int_str i"
| "decimal_repr (PFloat f) = decimal_str f"
| "decimal_repr (PStr s) = [CHR 0x27] @ s @ [CHR 0x27]"
| "decimal_repr (PList xs) = ''['' @ join_with '', '' (map decimal_repr xs) @ '']''"
| "decimal_repr (PDict kvs) =
     ''{'' @ join_with '', ''
              (map (\<lambda>kv. [CHR 0x27] @ fst kv @ [CHR 0x27] @ '': '' @ decimal_repr (snd kv)) kvs)
     @ ''}''"

definition decimal_api :: "decimal pyapi" where
  "decimal_api =
     \<lparr> float_of_str = decimal_of_str,
       float_of_int = (\<lambda>i. Some (i, 0)),
       float_nonzero = (\<lambda>x. fst x \<noteq> 0),
       float_str = decimal_str,
       float_eq = (\<lambda>x y. x = y),
       float_eq_int = (\<lambda>x i. x = (i, 0)),
       container_str = decimal_repr \<rparr>"

text \<open>A \<^verbatim>\<open>DictParser\<close> that finds none of its keys in the record and sets no field.\<close>

definition no_fields :: "decimal pyval \<Rightarrow> pyerr + decimal item" where
  "no_fields raw = Inr []"

subsection \<open>Sample records and pages\<close>

text \<open>Records as a locator page carries them, with French keys and decimal commas.\<close>

definition branch_record ::
  "string \<Rightarrow> decimal pyval \<Rightarrow> decimal pyval \<Rightarrow> string \<Rightarrow> (string \<times> decimal pyval) list" where
  "branch_record nom lat lon ville =
     [(''nom'', PStr nom), (''latitude'', lat), (''longitude'', lon), (''ville'', PStr ville)]"

definition casablanca :: "(string \<times> decimal pyval) list" where
  "casablanca =
     branch_record ''Saham Bank - Agence Casablanca'' (PStr ''33,5731'') (PStr ''-7,5898'')
       ''Casablanca''"

definition rabat_centre :: "(string \<times> decimal pyval) list" where
  "rabat_centre = branch_record ''Agence Centre'' (PStr ''34,0'') (PStr ''-6,8'') ''Rabat''"

definition rabat_centre_moved :: "(string \<times> decimal pyval) list" where
  "rabat_centre_moved = branch_record ''Agence Centre'' (PStr ''35,0'') (PStr ''-6,8'') ''Rabat''"

definition unnamed_south :: "(string \<times> decimal pyval) list" where
  "unnamed_south = branch_record [] (PStr ''34,0'') (PStr ''-6,8'') []"

definition unnamed_north :: "(string \<times> decimal pyval) list" where
  "unnamed_north = branch_record [] (PStr ''35,0'') (PStr ''-6,8'') []"

definition misread :: "(string \<times> decimal pyval) list" where
  "misread = branch_record ''Agence Centre'' (PStr ''abc'') (PStr ''-6,8'') ''Rabat''"

definition equator :: "(string \<times> decimal pyval) list" where
  "equator = branch_record ''Agence Equateur'' (PInt 0) (PStr ''9,45'') ''Libreville''"

definition hay_riad :: "(string \<times> decimal pyval) list" where
  "hay_riad =
     [(''nom'', PStr ''Agence Hay Riad''), (''latitude'', PStr ''33,95''),
      (''longitude'', PStr ''-6,87'')]"

text \<open>
  Pages stand for what the regular expressions and \<^verbatim>\<open>json.loads\<close> find in them: each
  script is named, \<open>page_finditer\<close> gives the candidates of the first pattern in it
  and \<open>page_loads\<close> the value of a candidate. The script \<open>agences\<close> has a candidate
  that is not JSON and one with three records, two of them with the same \<^verbatim>\<open>id\<close>.
\<close>

definition agences :: "decimal pyval" where
  "agences =
     PDict [(''agences'',
       PList [PDict ((''id'', PStr ''A1'') # casablanca),
              PDict ((''id'', PStr ''A1'') # rabat_centre),
              PDict ((''id'', PStr ''A2'') # rabat_centre_moved)])]"

definition page_finditer :: "pattern \<Rightarrow> string \<Rightarrow> string list" where
  "page_finditer pat s =
     (if pat = NUXT then
        (if s = ''agences'' then [''{broken'', ''{agences};''] else [s])
      else [])"

definition page_loads :: "string \<Rightarrow> decimal pyval option" where
  "page_loads t =
     (if t = ''{agences}'' then Some agences
      else if t = ''{moved}'' then
        Some (PDict [(''data'', PList [PDict rabat_centre, PDict rabat_centre_moved])])
      else if t = ''{unnamed}'' then
        Some (PDict [(''data'',
                PList [PDict unnamed_south, PDict unnamed_south, PDict unnamed_north])])
      else if t = ''{misread}'' then Some (PDict [(''data'', PList [PDict misread])])
      else None)"

definition page :: "string \<Rightarrow> response" where
  "page s = \<lparr> typed_script_texts = [], script_texts = [s] \<rparr>"

text \<open>The items that \<^verbatim>\<open>_dict_to_item\<close> makes of the sample records.\<close>

definition casablanca_item :: "decimal item" where
  "casablanca_item =
     [(''branch'', PStr ''Casablanca''), (''street_address'', PNone),
      (''city'', PStr ''Casablanca''), (''state'', PNone), (''postcode'', PNone),
      (''phone'', PNone), (''email'', PNone), (''lat'', PFloat (335731, 4)),
      (''lon'', PFloat (- 75898, 4)), (''ref'', PStr ''Casablanca-Casablanca''),
      (''category'', PStr ''bank'')]"

definition centre_item :: "decimal item" where
  "centre_item =
     [(''branch'', PStr ''Centre''), (''street_address'', PNone), (''city'', PStr ''Rabat''),
      (''state'', PNone), (''postcode'', PNone), (''phone'', PNone), (''email'', PNone),
      (''lat'', PFloat (34, 0)), (''lon'', PFloat (- 68, 1)), (''ref'', PStr ''Rabat-Centre''),
      (''category'', PStr ''bank'')]"

definition centre_moved_item :: "decimal item" where
  "centre_moved_item =
     [(''branch'', PStr ''Centre''), (''street_address'', PNone), (''city'', PStr ''Rabat''),
      (''state'', PNone), (''postcode'', PNone), (''phone'', PNone), (''email'', PNone),
      (''lat'', PFloat (35, 0)), (''lon'', PFloat (- 68, 1)), (''ref'', PStr ''Rabat-Centre''),
      (''category'', PStr ''bank'')]"

definition unnamed_south_item :: "decimal item" where
  "unnamed_south_item =
     [(''street_address'', PNone), (''city'', PStr []), (''state'', PNone),
      (''postcode'', PNone), (''phone'', PNone), (''email'', PNone),
      (''lat'', PFloat (34, 0)), (''lon'', PFloat (- 68, 1)), (''ref'', PStr []),
      (''category'', PStr ''bank'')]"

definition unnamed_north_item :: "decimal item" where
  "unnamed_north_item =
     [(''street_address'', PNone), (''city'', PStr []), (''state'', PNone),
      (''postcode'', PNone), (''phone'', PNone), (''email'', PNone),
      (''lat'', PFloat (35, 0)), (''lon'', PFloat (- 68, 1)), (''ref'', PStr []),
      (''category'', PStr ''bank'')]"

definition misread_item :: "decimal item" where
  "misread_item =
     [(''branch'', PStr ''Centre''), (''street_address'', PNone), (''city'', PStr ''Rabat''),
      (''state'', PNone), (''postcode'', PNone), (''phone'', PNone), (''email'', PNone),
      (''ref'', PStr ''Rabat-Centre''), (''category'', PStr ''bank'')]"

definition equator_item :: "decimal item" where
  "equator_item =
     [(''branch'', PStr ''Equateur''), (''street_address'', PNone),
      (''city'', PStr ''Libreville''), (''state'', PNone), (''postcode'', PNone),
      (''phone'', PNone), (''email'', PNone), (''ref'', PStr ''Libreville-Equateur''),
      (''category'', PStr ''bank'')]"

definition hay_riad_item :: "decimal item" where
  "hay_riad_item =
     [(''branch'', PStr ''Hay Riad''), (''street_address'', PNone), (''city'', PNone),
      (''state'', PNone), (''postcode'', PNone), (''phone'', PNone), (''email'', PNone),
      (''lat'', PFloat (3395, 2)), (''lon'', PFloat (- 687, 2)),
      (''ref'', PStr ''None-Hay Riad''), (''category'', PStr ''bank'')]"

definition with_ref :: "string \<Rightarrow> decimal item \<Rightarrow> decimal item" where
  "with_ref r item = item_set ''ref'' (PStr r) item"

section \<open>Properties of the blob walker\<close>

lemma fold_walk_append:
  assumes "\<And>x acc. x \<in> set xs \<Longrightarrow> walk acc x = acc @ g x"
  shows "fold (\<lambda>v acc. walk acc v) xs acc = acc @ concat (map g xs)"
  using assms by (induction xs arbitrary: acc) simp_all

lemma concat_filter_concat:
  "concat (map f (filter P (concat (map d xs))))
   = concat (map (\<lambda>x. concat (map f (filter P (d x)))) xs)"
  by (induction xs) simp_all

lemma elements_PList: "elements (PList xs) = xs"
  by (simp add: elements_def)

lemma walk_append:
  "walk found node = found @ concat (map elements (matching_arrays node))"
proof (induction found node rule: walk.induct)
  case (1 found xs)
  have "fold (\<lambda>v acc. walk acc v) xs acc
        = acc @ concat (map (\<lambda>x. concat (map elements (matching_arrays x))) xs)" for acc
    by (rule fold_walk_append) (simp add: "1.IH")
  then show ?case
    by (simp add: matching_arrays_def elements_PList concat_filter_concat)
next
  case (2 found kvs)
  have "fold (\<lambda>v acc. walk acc v) (map snd kvs) acc
        = acc @ concat (map (\<lambda>x. concat (map elements (matching_arrays x))) (map snd kvs))"
    for acc
    by (rule fold_walk_append) (simp add: "2.IH")
  then show ?case
    by (simp add: matching_arrays_def looks_like_locations_def concat_filter_concat comp_def)
qed (simp_all add: matching_arrays_def looks_like_locations_def)

text \<open>
  Claim C9. For every nested structure of dicts and lists,
  \<^verbatim>\<open>_extract_locations_from_blob\<close> returns exactly the concatenation, in the order of
  the traversal, of the elements of every array below the blob (the blob included)
  whose first element is a dict whose lowercased keys contain one of the four
  templates; every other array contributes nothing.
\<close>

theorem extract_locations_from_blob_matching_arrays:
  "extract_locations_from_blob blob = concat (map elements (matching_arrays blob))"
  by (simp add: extract_locations_from_blob_def walk_append)

section \<open>Properties of \<^verbatim>\<open>_dict_to_item\<close>\<close>

subsection \<open>Fields that a step leaves alone\<close>

lemma dict_get_item_set:
  "dict_get (item_set k v item) k' = (if k' = k then v else dict_get item k')"
  by (simp add: dict_get_def item_set_def update_conv')

lemma map_of_item_set:
  "map_of (item_set k v item) k' = (if k' = k then Some v else map_of item k')"
  by (simp add: item_set_def update_conv')

lemma map_of_item_pop:
  "map_of (item_pop k item) k' = (if k' = k then None else map_of item k')"
  by (simp add: item_pop_def delete_conv)

lemma item_set_nonempty: "item_set k v item \<noteq> []"
  by (cases item) (simp_all add: item_set_def)

lemma map_of_address_fields:
  "k \<notin> {''street_address'', ''city'', ''state'', ''postcode''} \<Longrightarrow>
   map_of (address_fields api d item) k = map_of item k"
  by (simp add: address_fields_def Let_def map_of_item_set)

lemma map_of_contact_fields:
  "k \<notin> {''phone'', ''email''} \<Longrightarrow> map_of (contact_fields api d item) k = map_of item k"
  by (simp add: contact_fields_def Let_def map_of_item_set)

lemma map_of_geo_other:
  "k \<notin> {''lat'', ''lon''} \<Longrightarrow> map_of (geo api lat lon item) k = map_of item k"
  by (simp add: geo_def Let_def map_of_item_set split: option.splits)

lemma map_of_ids:
  "k \<noteq> ''ref'' \<Longrightarrow> map_of (ids api d item) k = map_of item k"
  by (simp add: ids_def map_of_item_set)

lemma map_of_apply_category:
  "k \<noteq> ''category'' \<Longrightarrow> map_of (apply_category item) k = map_of item k"
  by (simp add: apply_category_def map_of_item_set)

lemma map_of_name_cleanup:
  "name_cleanup api d item = Inr item1 \<Longrightarrow> k \<notin> {''name'', ''branch''} \<Longrightarrow>
   map_of item1 k = map_of item k"
  by (auto simp: name_cleanup_def Let_def map_of_item_set map_of_item_pop
      split: if_splits pyval.splits)

lemma dict_to_item_Inr:
  assumes "dict_to_item api dp raw = Inr it"
  obtains d item0 item1 where "raw = PDict d" "dp raw = Inr item0"
    "name_cleanup api d item0 = Inr item1"
    "it = apply_category (ids api d (geo api (decimal_point (raw_lat api d))
            (decimal_point (raw_lon api d))
            (contact_fields api d (address_fields api d item1))))"
  using assms
  by (auto simp: dict_to_item_def Let_def split: pyval.splits sum.splits)

lemma dict_to_item_PDict:
  assumes "dp (PDict d) = Inr item0" "name_cleanup api d item0 = Inr item1"
  shows "dict_to_item api dp (PDict d) =
     Inr (apply_category (ids api d (geo api (decimal_point (raw_lat api d))
            (decimal_point (raw_lon api d))
            (contact_fields api d (address_fields api d item1)))))"
  using assms by (simp add: dict_to_item_def Let_def)

lemma dict_to_item_nonempty: "dict_to_item api dp raw = Inr it \<Longrightarrow> it \<noteq> []"
  by (erule dict_to_item_Inr) (simp add: apply_category_def item_set_nonempty)

lemma dropWhile_all_iff: "(\<forall>x\<in>set (dropWhile p s). p x) \<longleftrightarrow> (\<forall>x\<in>set s. p x)"
  by (induction s) simp_all

lemma strip_dash_empty: "strip_dash s = [] \<longleftrightarrow> list_all (\<lambda>c. c = CHR ''-'') s"
  by (simp add: strip_dash_def rstrip_with_def lstrip_with_def dropWhile_eq_Nil_conv
      dropWhile_all_iff list_all_iff)

lemma synth_ref_cong:
  "map_of item ''city'' = map_of item' ''city'' \<Longrightarrow>
   map_of item ''branch'' = map_of item' ''branch'' \<Longrightarrow>
   synth_ref api item = synth_ref api item'"
  by (simp add: synth_ref_def dict_get_default_def)

lemma dict_get_ids_ref:
  "dict_get (ids api d item) ''ref'' =
     py_or api
       (py_or api
          (py_or api (py_or api (dict_get d ''id'') (dict_get d ''ref'')) (dict_get d ''code''))
          (dict_get d ''slug''))
       (PStr (synth_ref api item))"
  by (simp add: ids_def dict_get_item_set)

subsection \<open>Coordinates\<close>

text \<open>
  Claim C1. For every raw record whose latitude (the value the fallback chain over
  \<^verbatim>\<open>lat\<close>, \<^verbatim>\<open>latitude\<close>, \<^verbatim>\<open>Latitude\<close> picks) and longitude (over \<^verbatim>\<open>lng\<close>, \<^verbatim>\<open>lon\<close>,
  \<^verbatim>\<open>longitude\<close>, \<^verbatim>\<open>Longitude\<close>) are decimal strings with a comma, the record that
  \<^verbatim>\<open>_dict_to_item\<close> produces has \<^verbatim>\<open>lat\<close> and \<^verbatim>\<open>lon\<close> set to the floats read from those
  strings with the comma turned into a point.
\<close>

theorem dict_to_item_comma_decimal:
  assumes "dict_to_item api dp (PDict d) = Inr it"
    and "raw_lat api d = PStr s1" and "raw_lon api d = PStr s2"
    and "s1 \<noteq> []" and "s2 \<noteq> []"
    and "float_of_str api (comma_to_point s1) = Some f1"
    and "float_of_str api (comma_to_point s2) = Some f2"
  shows "dict_get it ''lat'' = PFloat f1 \<and> dict_get it ''lon'' = PFloat f2"
proof -
  from assms(1) obtain item0 item1 where
    it: "it = apply_category (ids api d (geo api (decimal_point (raw_lat api d))
            (decimal_point (raw_lon api d))
            (contact_fields api d (address_fields api d item1))))"
    by (rule dict_to_item_Inr) simp
  have g: "geo api (PStr (comma_to_point s1)) (PStr (comma_to_point s2)) item
        = item_set ''lon'' (PFloat f2) (item_set ''lat'' (PFloat f1) item)" for item
    using assms(4-7)
    by (simp add: geo_def truthy_def py_float_def comma_to_point_def)
  show ?thesis
    unfolding it assms(2,3)
    by (simp add: dict_get_def map_of_apply_category map_of_ids g decimal_point_def
        map_of_item_set)
qed

text \<open>
  Claim C10. For every raw record whose latitude or longitude is false (the number 0,
  the empty string, or absent), \<^verbatim>\<open>_dict_to_item\<close> skips the branch that stores the
  floats: \<^verbatim>\<open>lat\<close> and \<^verbatim>\<open>lon\<close> stay as \<^verbatim>\<open>DictParser\<close> left them.
\<close>

theorem dict_to_item_falsy_coordinate:
  assumes "dict_to_item api dp (PDict d) = Inr it"
    and "dp (PDict d) = Inr item0"
    and "\<not> truthy api (raw_lat api d) \<or> \<not> truthy api (raw_lon api d)"
  shows "map_of it ''lat'' = map_of item0 ''lat'' \<and> map_of it ''lon'' = map_of item0 ''lon''"
proof -
  from assms(1) obtain item0' item1 where
    dp: "dp (PDict d) = Inr item0'" and nc: "name_cleanup api d item0' = Inr item1" and
    it: "it = apply_category (ids api d (geo api (decimal_point (raw_lat api d))
            (decimal_point (raw_lon api d))
            (contact_fields api d (address_fields api d item1))))"
    by (rule dict_to_item_Inr) simp
  have eq: "item0' = item0" using dp assms(2) by simp
  have t: "truthy api (decimal_point v) = truthy api v" for v
    by (cases v) (simp_all add: decimal_point_def truthy_def comma_to_point_def)
  have g: "geo api (decimal_point (raw_lat api d)) (decimal_point (raw_lon api d)) item = item"
    for item
    using assms(3) by (auto simp: geo_def t)
  show ?thesis
    unfolding it g using nc eq
    by (simp add: map_of_apply_category map_of_ids map_of_contact_fields
        map_of_address_fields map_of_name_cleanup)
qed

text \<open>
  Claim C7, amended. For every raw record whose latitude or longitude is a string that
  cannot be read as a float, the failure is swallowed and no error is raised on its
  account, and the record is not dropped: \<^verbatim>\<open>_dict_to_item\<close> returns its item, which is
  true; \<^verbatim>\<open>lon\<close> stays as \<^verbatim>\<open>DictParser\<close> left it, and so does \<^verbatim>\<open>lat\<close> when the latitude is
  the string that fails.
\<close>

theorem dict_to_item_unparsed_coordinate:
  assumes "dp (PDict d) = Inr item0"
    and "name_cleanup api d item0 = Inr item1"
    and "(\<exists>s. raw_lat api d = PStr s \<and> float_of_str api (comma_to_point s) = None)
       \<or> (\<exists>s. raw_lon api d = PStr s \<and> float_of_str api (comma_to_point s) = None)"
  shows "\<exists>it. dict_to_item api dp (PDict d) = Inr it \<and> it \<noteq> []
            \<and> map_of it ''lon'' = map_of item0 ''lon''
            \<and> ((\<exists>s. raw_lat api d = PStr s \<and> float_of_str api (comma_to_point s) = None)
                 \<longrightarrow> map_of it ''lat'' = map_of item0 ''lat'')"
proof -
  define pre where "pre = contact_fields api d (address_fields api d item1)"
  define lat where "lat = decimal_point (raw_lat api d)"
  define lon where "lon = decimal_point (raw_lon api d)"
  have r: "dict_to_item api dp (PDict d) = Inr (apply_category (ids api d (geo api lat lon pre)))"
    unfolding pre_def lat_def lon_def using assms(1,2) by (rule dict_to_item_PDict)
  have p: "map_of pre k = map_of item0 k" if "k = ''lat'' \<or> k = ''lon''" for k
    using that assms(2)
    by (auto simp: pre_def map_of_contact_fields map_of_address_fields map_of_name_cleanup)
  have f: "py_float api lat = None \<or> py_float api lon = None"
    using assms(3) by (auto simp: lat_def lon_def decimal_point_def py_float_def)
  have glon: "map_of (geo api lat lon pre) ''lon'' = map_of pre ''lon''"
    using f by (auto simp: geo_def Let_def map_of_item_set split: option.splits)
  have glat: "map_of (geo api lat lon pre) ''lat'' = map_of pre ''lat''"
    if "py_float api lat = None"
    using that by (simp add: geo_def)
  have l: "py_float api lat = None"
    if "\<exists>s. raw_lat api d = PStr s \<and> float_of_str api (comma_to_point s) = None"
    using that by (auto simp: lat_def decimal_point_def py_float_def)
  have ne: "apply_category (ids api d (geo api lat lon pre)) \<noteq> []"
    by (simp add: apply_category_def item_set_nonempty)
  show ?thesis
    unfolding r using ne
    by (auto simp: map_of_apply_category map_of_ids glon glat p l)
qed

subsection \<open>Name and identifier\<close>

text \<open>
  Claim C8. For a raw record whose display name is exactly
  \<^verbatim>\<open>Saham Bank - Agence Casablanca\<close>, \<^verbatim>\<open>_dict_to_item\<close> sets \<^verbatim>\<open>branch\<close> to \<^verbatim>\<open>Casablanca\<close>
  and removes the field \<^verbatim>\<open>name\<close>.
\<close>

theorem dict_to_item_casablanca:
  assumes "dp (PDict d) = Inr item0"
    and "display_name api d item0 = PStr ''Saham Bank - Agence Casablanca''"
  shows "\<exists>it. dict_to_item api dp (PDict d) = Inr it
            \<and> dict_get it ''branch'' = PStr ''Casablanca'' \<and> map_of it ''name'' = None"
proof -
  have cb: "clean_branch ''Saham Bank - Agence Casablanca'' = ''Casablanca''"
    by code_simp
  define item1 where
    "item1 = item_pop ''name'' (item_set ''branch'' (PStr ''Casablanca'') item0)"
  have nc: "name_cleanup api d item0 = Inr item1"
    by (simp add: name_cleanup_def assms(2) truthy_def cb item1_def)
  have b: "map_of item1 ''branch'' = Some (PStr ''Casablanca'')"
    and n: "map_of item1 ''name'' = None"
    by (simp_all add: item1_def map_of_item_pop map_of_item_set)
  have "dict_to_item api dp (PDict d) =
     Inr (apply_category (ids api d (geo api (decimal_point (raw_lat api d))
            (decimal_point (raw_lon api d))
            (contact_fields api d (address_fields api d item1)))))"
    using assms(1) nc by (rule dict_to_item_PDict)
  then show ?thesis
    by (simp add: dict_get_def map_of_apply_category map_of_ids map_of_geo_other
        map_of_contact_fields map_of_address_fields b n)
qed

text \<open>
  Claim C5, amended. The \<^verbatim>\<open>ref\<close> of the item that \<^verbatim>\<open>_dict_to_item\<close> returns is the
  empty string exactly when none of \<^verbatim>\<open>id\<close>, \<^verbatim>\<open>ref\<close>, \<^verbatim>\<open>code\<close>, \<^verbatim>\<open>slug\<close> is true and the
  text \<^verbatim>\<open>{city}-{branch}\<close> has no character but \<^verbatim>\<open>-\<close>; in every other case it is
  non-empty (true).
\<close>

theorem dict_to_item_ref_empty_iff:
  assumes "dict_to_item api dp (PDict d) = Inr it"
  shows "(dict_get it ''ref'' = PStr [] \<longleftrightarrow>
            \<not> truthy api (dict_get d ''id'') \<and> \<not> truthy api (dict_get d ''ref'')
          \<and> \<not> truthy api (dict_get d ''code'') \<and> \<not> truthy api (dict_get d ''slug'')
          \<and> list_all (\<lambda>c. c = CHR ''-'')
               (py_str api (dict_get_default it ''city'' (PStr []))
                @ ''-'' @ py_str api (dict_get_default it ''branch'' (PStr []))))
       \<and> (truthy api (dict_get it ''ref'') \<longleftrightarrow> dict_get it ''ref'' \<noteq> PStr [])"
proof -
  from assms obtain item0 item1 where
    it: "it = apply_category (ids api d (geo api (decimal_point (raw_lat api d))
            (decimal_point (raw_lon api d))
            (contact_fields api d (address_fields api d item1))))"
    by (rule dict_to_item_Inr) simp
  define pre where "pre = geo api (decimal_point (raw_lat api d))
            (decimal_point (raw_lon api d))
            (contact_fields api d (address_fields api d item1))"
  have it': "it = apply_category (ids api d pre)"
    by (simp add: it pre_def)
  have s: "synth_ref api it = synth_ref api pre"
    unfolding it' by (rule synth_ref_cong) (simp_all add: map_of_apply_category map_of_ids)
  have r: "dict_get it ''ref'' =
     py_or api
       (py_or api
          (py_or api (py_or api (dict_get d ''id'') (dict_get d ''ref'')) (dict_get d ''code''))
          (dict_get d ''slug''))
       (PStr (synth_ref api it))"
    unfolding s unfolding it'
    by (simp add: dict_get_def map_of_apply_category dict_get_ids_ref [unfolded dict_get_def])
  have e: "synth_ref api it = [] \<longleftrightarrow> list_all (\<lambda>c. c = CHR ''-'')
               (py_str api (dict_get_default it ''city'' (PStr []))
                @ ''-'' @ py_str api (dict_get_default it ''branch'' (PStr [])))"
    by (simp add: synth_ref_def strip_dash_empty)
  have ne: "\<not> truthy api (PStr [])" by (simp add: truthy_def)
  show ?thesis
    unfolding r e [symmetric]
    by (auto simp: py_or_def truthy_def [of api "PStr _"])
qed

section \<open>Properties of \<^verbatim>\<open>parse_locator\<close>\<close>

lemma py_eq_PStr: "py_eq api a (PStr s) \<longleftrightarrow> a = PStr s"
  by (cases a) (auto simp: py_eq_def as_int_def)

lemma py_eq_PNone: "py_eq api a PNone \<longleftrightarrow> a = PNone"
  by (cases a) (auto simp: py_eq_def as_int_def)

lemma key_eq_plain: "plain_key k \<Longrightarrow> key_eq api e k \<longleftrightarrow> e = k"
  by (cases k; cases e)
     (auto simp: plain_key_def key_eq_def text_or_none_def py_eq_PStr py_eq_PNone
        split: pyval.splits)

lemma normalized_items_Cons:
  "dict_to_item api dp raw = Inr item \<Longrightarrow>
   normalized_items api dp (raw # rest) = item # normalized_items api dp rest"
  by (simp add: normalized_items_def)

lemma emit_first_of_key:
  assumes "emit api dp seen raws = (out, None)"
    and "\<And>e. e \<in> set seen \<Longrightarrow> key_eq api e k \<longleftrightarrow> e = k"
    and "\<And>it. it \<in> set (normalized_items api dp raws) \<Longrightarrow>
           key_eq api (dedup_key api it) k \<longleftrightarrow> dedup_key api it = k"
  shows "filter (\<lambda>it. dedup_key api it = k) out =
     (if k \<in> set seen then []
      else take 1 (filter (\<lambda>it. dedup_key api it = k) (normalized_items api dp raws)))"
  using assms
proof (induction raws arbitrary: seen out)
  case Nil
  then show ?case by (simp add: normalized_items_def)
next
  case (Cons raw rest)
  from Cons.prems(1) obtain item where item: "dict_to_item api dp raw = Inr item"
    by (cases "dict_to_item api dp raw") auto
  have ne: "item \<noteq> []" using item by (rule dict_to_item_nonempty)
  have h: "key_hashable (dedup_key api item)"
    using Cons.prems(1) item ne by (auto simp: Let_def split: if_splits)
  note ni = normalized_items_Cons [OF item, of rest]
  have rest: "key_eq api (dedup_key api it) k \<longleftrightarrow> dedup_key api it = k"
    if "it \<in> set (normalized_items api dp rest)" for it
    using that Cons.prems(3) [of it] by (simp add: ni)
  have cur: "key_eq api (dedup_key api item) k \<longleftrightarrow> dedup_key api item = k"
    using Cons.prems(3) [of item] by (simp add: ni)
  have seen: "key_in api k seen \<longleftrightarrow> k \<in> set seen"
    using Cons.prems(2) by (auto simp: key_in_def list_ex_iff)
  show ?case
  proof (cases "key_in api (dedup_key api item) seen")
    case True
    then have e: "emit api dp seen rest = (out, None)"
      using Cons.prems(1) item ne h by (simp add: Let_def)
    have "dedup_key api item = k \<Longrightarrow> k \<in> set seen"
      using True seen by auto
    then show ?thesis
      using Cons.IH [OF e Cons.prems(2) rest] by (auto simp: ni)
  next
    case False
    then obtain out' where e: "emit api dp (dedup_key api item # seen) rest = (out', None)"
      and out: "out = item # out'"
      using Cons.prems(1) item ne h by (auto simp: Let_def split: prod.splits)
    have s': "key_eq api e k \<longleftrightarrow> e = k" if "e \<in> set (dedup_key api item # seen)" for e
      using that cur Cons.prems(2) by auto
    have "dedup_key api item = k \<Longrightarrow> k \<notin> set seen"
      using False seen by auto
    then show ?thesis
      using Cons.IH [OF e s' rest] by (auto simp: ni out)
  qed
qed

lemma dedup_key_ref:
  "truthy api v \<Longrightarrow> dedup_key api it = KRef v \<longleftrightarrow> dict_get it ''ref'' = v"
  by (auto simp: dedup_key_def Let_def)

lemma key_eq_ref:
  "key_eq api (dedup_key api it) (KRef v)
     \<longleftrightarrow> truthy api (dict_get it ''ref'') \<and> py_eq api (dict_get it ''ref'') v"
  by (simp add: dedup_key_def Let_def key_eq_def)

lemma dedup_key_triple:
  "dedup_key api it = KTuple a b n \<longleftrightarrow> has_triple api a b n it"
  by (auto simp: dedup_key_def Let_def has_triple_def)

lemma eq_is_identity_text: "eq_is_identity api (PStr r) items"
  by (simp add: eq_is_identity_def list_all_iff py_eq_PStr)

text \<open>
  Claim C2. For every input to \<^verbatim>\<open>parse_locator\<close> that it processes to the end, and every
  non-empty (true) value \<open>v\<close> that \<^verbatim>\<open>==\<close> does not take for another \<^verbatim>\<open>ref\<close> of the
  response (no string is ever taken for another): of the records whose normalized
  items have the \<^verbatim>\<open>ref\<close> \<open>v\<close>, only the first is emitted; every later one is skipped.
\<close>

theorem parse_locator_dedup_by_ref:
  assumes "parse_locator api dp finditer loads resp = (out, None)"
    and "truthy api v"
    and "eq_is_identity api v
           (normalized_items api dp
              (collect_locations finditer loads (typed_script_texts resp @ script_texts resp)))"
  shows "filter (\<lambda>it. dict_get it ''ref'' = v) out =
     take 1 (filter (\<lambda>it. dict_get it ''ref'' = v)
       (normalized_items api dp
          (collect_locations finditer loads (typed_script_texts resp @ script_texts resp))))"
proof -
  let ?items = "normalized_items api dp
          (collect_locations finditer loads (typed_script_texts resp @ script_texts resp))"
  have e: "emit api dp [] (collect_locations finditer loads
             (typed_script_texts resp @ script_texts resp)) = (out, None)"
    using assms(1) by (simp add: parse_locator_def)
  have k: "key_eq api (dedup_key api it) (KRef v) \<longleftrightarrow> dedup_key api it = KRef v"
    if "it \<in> set ?items" for it
  proof -
    have "py_eq api (dict_get it ''ref'') v \<longleftrightarrow> dict_get it ''ref'' = v"
      using assms(3) that by (simp add: eq_is_identity_def list_all_iff)
    then show ?thesis
      using assms(2) by (auto simp: key_eq_ref dedup_key_ref)
  qed
  have "filter (\<lambda>it. dedup_key api it = KRef v) out =
     (if KRef v \<in> set [] then []
      else take 1 (filter (\<lambda>it. dedup_key api it = KRef v) ?items))"
    using e _ k by (rule emit_first_of_key) simp
  then show ?thesis
    by (simp add: dedup_key_ref [OF assms(2)])
qed

text \<open>
  Claim C3, amended. For every input to \<^verbatim>\<open>parse_locator\<close> that it processes to the end:
  of the records whose normalized items have a false \<^verbatim>\<open>ref\<close> and the same key (the
  texts of \<^verbatim>\<open>lat\<close> and \<^verbatim>\<open>lon\<close>, and the name or branch, a string or \<^verbatim>\<open>None\<close>), only the
  first is emitted; this holds of every such key, so records whose keys differ in a
  component are emitted each as the first of its own key.
\<close>

theorem parse_locator_dedup_by_triple:
  assumes "parse_locator api dp finditer loads resp = (out, None)" and "text_or_none n"
  shows "filter (has_triple api a b n) out =
     take 1 (filter (has_triple api a b n)
       (normalized_items api dp
          (collect_locations finditer loads (typed_script_texts resp @ script_texts resp))))"
proof -
  have e: "emit api dp [] (collect_locations finditer loads
             (typed_script_texts resp @ script_texts resp)) = (out, None)"
    using assms(1) by (simp add: parse_locator_def)
  have p: "plain_key (KTuple a b n)" using assms(2) by (simp add: plain_key_def)
  have "filter (\<lambda>it. dedup_key api it = KTuple a b n) out =
     (if KTuple a b n \<in> set [] then []
      else take 1 (filter (\<lambda>it. dedup_key api it = KTuple a b n)
        (normalized_items api dp
          (collect_locations finditer loads (typed_script_texts resp @ script_texts resp)))))"
    using e by (rule emit_first_of_key) (simp_all add: key_eq_plain [OF p])
  then show ?thesis
    by (simp add: dedup_key_triple)
qed

lemma script_locations_without_candidate:
  assumes "loads (json_sanitize c) = None" and "finditer pat s = ms1 @ c # ms2"
  shows "script_locations (without_candidate finditer pat s (ms1 @ ms2)) loads
           = script_locations finditer loads"
proof (rule ext)
  fix s'
  have z: "ssr_candidate loads c = []" "array_candidate loads c = []"
    using assms(1) by (simp_all add: ssr_candidate_def array_candidate_def)
  show "script_locations (without_candidate finditer pat s (ms1 @ ms2)) loads s'
           = script_locations finditer loads s'"
  proof (cases "s' = s")
    case False
    then show ?thesis by (simp add: script_locations_def without_candidate_def)
  next
    case True
    show ?thesis
      unfolding True using assms(2)
      by (cases pat)
         (auto simp: script_locations_def without_candidate_def ssr_patterns_def z)
  qed
qed

text \<open>
  Claim C6. When a candidate that a regular expression captured in a script fails to
  parse as JSON after sanitization, \<^verbatim>\<open>parse_locator\<close> does what it does when the
  candidate is not there at all: the candidate adds no record and no error, and the
  other candidates and scripts are processed as before.
\<close>

theorem parse_locator_skips_bad_candidate:
  assumes "loads (json_sanitize c) = None" and "finditer pat s = ms1 @ c # ms2"
  shows "parse_locator api dp finditer loads resp
           = parse_locator api dp (without_candidate finditer pat s (ms1 @ ms2)) loads resp"
proof -
  have "script_locations (without_candidate finditer pat s (ms1 @ ms2)) loads
           = script_locations finditer loads"
    using assms by (rule script_locations_without_candidate)
  then show ?thesis
    by (simp add: parse_locator_def collect_locations_def)
qed

section \<open>The theorems on sample records\<close>

subsection \<open>Coordinates\<close>

theorem dict_to_item_comma_decimal_witness:
  "dict_to_item decimal_api no_fields (PDict casablanca) = Inr casablanca_item
   \<and> raw_lat decimal_api casablanca = PStr ''33,5731''
   \<and> raw_lon decimal_api casablanca = PStr ''-7,5898''
   \<and> float_of_str decimal_api (comma_to_point ''33,5731'') = Some (335731, 4)
   \<and> float_of_str decimal_api (comma_to_point ''-7,5898'') = Some (- 75898, 4)
   \<and> dict_get casablanca_item ''lat'' = PFloat (335731, 4)
   \<and> dict_get casablanca_item ''lon'' = PFloat (- 75898, 4)"
proof -
  have h1: "dict_to_item decimal_api no_fields (PDict casablanca) = Inr casablanca_item"
    by code_simp
  have h2: "raw_lat decimal_api casablanca = PStr ''33,5731''" by code_simp
  have h3: "raw_lon decimal_api casablanca = PStr ''-7,5898''" by code_simp
  have h4: "float_of_str decimal_api (comma_to_point ''33,5731'') = Some (335731, 4)"
    by code_simp
  have h5: "float_of_str decimal_api (comma_to_point ''-7,5898'') = Some (- 75898, 4)"
    by code_simp
  have "dict_get casablanca_item ''lat'' = PFloat (335731, 4)
        \<and> dict_get casablanca_item ''lon'' = PFloat (- 75898, 4)"
    using h1 h2 h3 _ _ h4 h5 by (rule dict_to_item_comma_decimal) simp_all
  with h1 h2 h3 h4 h5 show ?thesis by blast
qed

theorem dict_to_item_falsy_coordinate_witness:
  "dict_to_item decimal_api no_fields (PDict equator) = Inr equator_item
   \<and> no_fields (PDict equator) = Inr []
   \<and> raw_lat decimal_api equator = PNone
   \<and> map_of equator_item ''lat'' = None \<and> map_of equator_item ''lon'' = None"
proof -
  have h1: "dict_to_item decimal_api no_fields (PDict equator) = Inr equator_item"
    by code_simp
  have h2: "no_fields (PDict equator) = Inr []" by (simp add: no_fields_def)
  have h3: "raw_lat decimal_api equator = PNone" by code_simp
  have "\<not> truthy decimal_api (raw_lat decimal_api equator)
        \<or> \<not> truthy decimal_api (raw_lon decimal_api equator)"
    by (simp add: h3 truthy_def)
  with h1 h2 have "map_of equator_item ''lat'' = map_of [] ''lat''
        \<and> map_of equator_item ''lon'' = map_of [] ''lon''"
    by (rule dict_to_item_falsy_coordinate)
  with h1 h2 h3 show ?thesis by simp
qed

text \<open>
  A latitude that is not a number: the record is not dropped, \<^verbatim>\<open>parse_locator\<close> emits
  its item, without coordinates.
\<close>

theorem misread_coordinate_counterexample:
  "raw_lat decimal_api misread = PStr ''abc''
   \<and> float_of_str decimal_api (comma_to_point ''abc'') = None
   \<and> dict_to_item decimal_api no_fields (PDict misread) = Inr misread_item
   \<and> parse_locator decimal_api no_fields page_finditer page_loads (page ''{misread}'')
       = ([misread_item], None)"
  by code_simp

theorem dict_to_item_unparsed_coordinate_witness:
  "no_fields (PDict misread) = Inr []
   \<and> name_cleanup decimal_api misread [] = Inr [(''branch'', PStr ''Centre'')]
   \<and> raw_lat decimal_api misread = PStr ''abc''
   \<and> float_of_str decimal_api (comma_to_point ''abc'') = None
   \<and> dict_to_item decimal_api no_fields (PDict misread) = Inr misread_item
   \<and> misread_item \<noteq> []
   \<and> map_of misread_item ''lon'' = None \<and> map_of misread_item ''lat'' = None"
proof -
  have h1: "no_fields (PDict misread) = Inr []" by (simp add: no_fields_def)
  have h2: "name_cleanup decimal_api misread [] = Inr [(''branch'', PStr ''Centre'')]"
    by code_simp
  have h3: "raw_lat decimal_api misread = PStr ''abc''" by code_simp
  have h4: "float_of_str decimal_api (comma_to_point ''abc'') = None" by code_simp
  have h5: "dict_to_item decimal_api no_fields (PDict misread) = Inr misread_item"
    by code_simp
  have "(\<exists>s. raw_lat decimal_api misread = PStr s
              \<and> float_of_str decimal_api (comma_to_point s) = None)
        \<or> (\<exists>s. raw_lon decimal_api misread = PStr s
              \<and> float_of_str decimal_api (comma_to_point s) = None)"
    using h3 h4 by blast
  with h1 h2 have "\<exists>it. dict_to_item decimal_api no_fields (PDict misread) = Inr it
      \<and> it \<noteq> [] \<and> map_of it ''lon'' = map_of [] ''lon''
      \<and> ((\<exists>s. raw_lat decimal_api misread = PStr s
                \<and> float_of_str decimal_api (comma_to_point s) = None)
           \<longrightarrow> map_of it ''lat'' = map_of [] ''lat'')"
    by (rule dict_to_item_unparsed_coordinate)
  then have "misread_item \<noteq> [] \<and> map_of misread_item ''lon'' = None
      \<and> map_of misread_item ''lat'' = None"
    using h3 h4 h5 by auto
  with h1 h2 h3 h4 h5 show ?thesis by blast
qed

subsection \<open>Name and identifier\<close>

theorem dict_to_item_casablanca_witness:
  "no_fields (PDict casablanca) = Inr []
   \<and> display_name decimal_api casablanca [] = PStr ''Saham Bank - Agence Casablanca''
   \<and> dict_to_item decimal_api no_fields (PDict casablanca) = Inr casablanca_item
   \<and> dict_get casablanca_item ''branch'' = PStr ''Casablanca''
   \<and> map_of casablanca_item ''name'' = None"
proof -
  have h1: "no_fields (PDict casablanca) = Inr []" by (simp add: no_fields_def)
  have h2: "display_name decimal_api casablanca []
              = PStr ''Saham Bank - Agence Casablanca''"
    by code_simp
  have h3: "dict_to_item decimal_api no_fields (PDict casablanca) = Inr casablanca_item"
    by code_simp
  from h1 h2 have "\<exists>it. dict_to_item decimal_api no_fields (PDict casablanca) = Inr it
      \<and> dict_get it ''branch'' = PStr ''Casablanca'' \<and> map_of it ''name'' = None"
    by (rule dict_to_item_casablanca)
  then have "dict_get casablanca_item ''branch'' = PStr ''Casablanca''
      \<and> map_of casablanca_item ''name'' = None"
    using h3 by auto
  with h1 h2 h3 show ?thesis by blast
qed

text \<open>A record with an empty name and an empty city gets the empty \<^verbatim>\<open>ref\<close>.\<close>

theorem empty_ref_counterexample:
  "dict_to_item decimal_api no_fields (PDict unnamed_south) = Inr unnamed_south_item
   \<and> dict_get unnamed_south_item ''ref'' = PStr []"
  by code_simp

theorem dict_to_item_ref_empty_iff_witness:
  "dict_to_item decimal_api no_fields (PDict equator) = Inr equator_item
   \<and> dict_get equator_item ''ref'' = PStr ''Libreville-Equateur''
   \<and> truthy decimal_api (dict_get equator_item ''ref'')"
proof -
  have h1: "dict_to_item decimal_api no_fields (PDict equator) = Inr equator_item"
    by code_simp
  have h2: "dict_get equator_item ''ref'' = PStr ''Libreville-Equateur''"
    by code_simp
  from dict_to_item_ref_empty_iff [OF h1]
  have "truthy decimal_api (dict_get equator_item ''ref'')
          \<longleftrightarrow> dict_get equator_item ''ref'' \<noteq> PStr []"
    by (rule conjunct2)
  then have "truthy decimal_api (dict_get equator_item ''ref'')"
    by (simp add: h2)
  with h1 h2 show ?thesis by blast
qed

text \<open>
  Claim C4. A raw record without \<^verbatim>\<open>id\<close>, \<^verbatim>\<open>ref\<close>, \<^verbatim>\<open>code\<close> and \<^verbatim>\<open>slug\<close> gets the \<^verbatim>\<open>ref\<close>
  \<^verbatim>\<open>{city}-{branch}\<close> stripped of \<^verbatim>\<open>-\<close>; an absent city should leave the branch alone.
  On the record of the branch Hay Riad, which has no city, the code stores \<^verbatim>\<open>None\<close>
  under \<^verbatim>\<open>city\<close> first, the default \<^verbatim>\<open>''\<close> of \<^verbatim>\<open>item.get('city', '')\<close> is not taken, and the
  \<^verbatim>\<open>ref\<close> is \<^verbatim>\<open>None-Hay Riad\<close>.
\<close>

theorem absent_city_placeholder:
  "dict_to_item decimal_api no_fields (PDict hay_riad) = Inr hay_riad_item
   \<and> dict_get hay_riad_item ''ref'' = PStr ''None-Hay Riad''"
  by code_simp

subsection \<open>Duplicates and candidates\<close>

theorem parse_locator_dedup_by_ref_witness:
  "parse_locator decimal_api no_fields page_finditer page_loads (page ''agences'')
     = ([with_ref ''A1'' casablanca_item, with_ref ''A2'' centre_moved_item], None)
   \<and> truthy decimal_api (PStr ''A1'')
   \<and> normalized_items decimal_api no_fields
         (collect_locations page_finditer page_loads [''agences''])
     = [with_ref ''A1'' casablanca_item, with_ref ''A1'' centre_item,
        with_ref ''A2'' centre_moved_item]
   \<and> eq_is_identity decimal_api (PStr ''A1'')
         [with_ref ''A1'' casablanca_item, with_ref ''A1'' centre_item,
          with_ref ''A2'' centre_moved_item]
   \<and> filter (\<lambda>it. dict_get it ''ref'' = PStr ''A1'')
         [with_ref ''A1'' casablanca_item, with_ref ''A2'' centre_moved_item]
     = take 1 (filter (\<lambda>it. dict_get it ''ref'' = PStr ''A1'')
         [with_ref ''A1'' casablanca_item, with_ref ''A1'' centre_item,
          with_ref ''A2'' centre_moved_item])"
proof -
  have h1: "parse_locator decimal_api no_fields page_finditer page_loads (page ''agences'')
     = ([with_ref ''A1'' casablanca_item, with_ref ''A2'' centre_moved_item], None)"
    by code_simp
  have h2: "normalized_items decimal_api no_fields
         (collect_locations page_finditer page_loads [''agences''])
     = [with_ref ''A1'' casablanca_item, with_ref ''A1'' centre_item,
        with_ref ''A2'' centre_moved_item]"
    by code_simp
  have h3: "truthy decimal_api (PStr ''A1'')" by (simp add: truthy_def)
  have h4: "eq_is_identity decimal_api (PStr ''A1'')
         [with_ref ''A1'' casablanca_item, with_ref ''A1'' centre_item,
          with_ref ''A2'' centre_moved_item]"
    by (rule eq_is_identity_text)
  have t: "typed_script_texts (page ''agences'') @ script_texts (page ''agences'')
             = [''agences'']"
    by (simp add: page_def)
  have "filter (\<lambda>it. dict_get it ''ref'' = PStr ''A1'')
         [with_ref ''A1'' casablanca_item, with_ref ''A2'' centre_moved_item]
     = take 1 (filter (\<lambda>it. dict_get it ''ref'' = PStr ''A1'')
         (normalized_items decimal_api no_fields
           (collect_locations page_finditer page_loads
              (typed_script_texts (page ''agences'') @ script_texts (page ''agences'')))))"
    using h1 h3 h4 [folded h2, folded t] by (rule parse_locator_dedup_by_ref)
  then have "filter (\<lambda>it. dict_get it ''ref'' = PStr ''A1'')
         [with_ref ''A1'' casablanca_item, with_ref ''A2'' centre_moved_item]
     = take 1 (filter (\<lambda>it. dict_get it ''ref'' = PStr ''A1'')
         [with_ref ''A1'' casablanca_item, with_ref ''A1'' centre_item,
          with_ref ''A2'' centre_moved_item])"
    by (simp only: t h2)
  with h1 h2 h3 h4 show ?thesis by blast
qed

text \<open>
  Two records without id-like field, both \<^verbatim>\<open>Agence Centre\<close> in Rabat, at different
  latitudes: the \<^verbatim>\<open>ref\<close> \<^verbatim>\<open>Rabat-Centre\<close> is the key of both, and the second is skipped.
\<close>

theorem differing_triples_counterexample:
  "normalized_items decimal_api no_fields [PDict rabat_centre, PDict rabat_centre_moved]
     = [centre_item, centre_moved_item]
   \<and> dict_get centre_item ''lat'' = PFloat (34, 0)
   \<and> dict_get centre_moved_item ''lat'' = PFloat (35, 0)
   \<and> collect_locations page_finditer page_loads [''{moved}'']
     = [PDict rabat_centre, PDict rabat_centre_moved]
   \<and> parse_locator decimal_api no_fields page_finditer page_loads (page ''{moved}'')
     = ([centre_item], None)"
  by code_simp

theorem parse_locator_dedup_by_triple_witness:
  "parse_locator decimal_api no_fields page_finditer page_loads (page ''{unnamed}'')
     = ([unnamed_south_item, unnamed_north_item], None)
   \<and> text_or_none (PNone :: decimal pyval)
   \<and> normalized_items decimal_api no_fields
         (collect_locations page_finditer page_loads [''{unnamed}''])
     = [unnamed_south_item, unnamed_south_item, unnamed_north_item]
   \<and> filter (has_triple decimal_api ''34.0'' ''-6.8'' PNone)
         [unnamed_south_item, unnamed_north_item]
     = take 1 (filter (has_triple decimal_api ''34.0'' ''-6.8'' PNone)
         [unnamed_south_item, unnamed_south_item, unnamed_north_item])
   \<and> filter (has_triple decimal_api ''34.0'' ''-6.8'' PNone)
         [unnamed_south_item, unnamed_north_item] = [unnamed_south_item]
   \<and> filter (has_triple decimal_api ''35.0'' ''-6.8'' PNone)
         [unnamed_south_item, unnamed_north_item] = [unnamed_north_item]"
proof -
  have h1: "parse_locator decimal_api no_fields page_finditer page_loads (page ''{unnamed}'')
     = ([unnamed_south_item, unnamed_north_item], None)"
    by code_simp
  have h2: "text_or_none (PNone :: decimal pyval)" by (simp add: text_or_none_def)
  have h3: "normalized_items decimal_api no_fields
         (collect_locations page_finditer page_loads [''{unnamed}''])
     = [unnamed_south_item, unnamed_south_item, unnamed_north_item]"
    by code_simp
  have h4: "filter (has_triple decimal_api ''34.0'' ''-6.8'' PNone)
         [unnamed_south_item, unnamed_north_item] = [unnamed_south_item]"
    by code_simp
  have h5: "filter (has_triple decimal_api ''35.0'' ''-6.8'' PNone)
         [unnamed_south_item, unnamed_north_item] = [unnamed_north_item]"
    by code_simp
  from parse_locator_dedup_by_triple [OF h1 h2, of "''34.0''" "''-6.8''"]
  have "filter (has_triple decimal_api ''34.0'' ''-6.8'' PNone)
         [unnamed_south_item, unnamed_north_item]
     = take 1 (filter (has_triple decimal_api ''34.0'' ''-6.8'' PNone)
         (normalized_items decimal_api no_fields
           (collect_locations page_finditer page_loads [''{unnamed}''])))"
    by (simp add: page_def)
  with h1 h2 h3 h4 h5 show ?thesis by simp
qed

theorem parse_locator_skips_bad_candidate_witness:
  "page_loads (json_sanitize ''{broken'') = None
   \<and> page_finditer NUXT ''agences'' = [] @ ''{broken'' # [''{agences};'']
   \<and> parse_locator decimal_api no_fields page_finditer page_loads (page ''agences'')
     = parse_locator decimal_api no_fields
         (without_candidate page_finditer NUXT ''agences'' ([] @ [''{agences};'']))
         page_loads (page ''agences'')
   \<and> parse_locator decimal_api no_fields page_finditer page_loads (page ''agences'')
     = ([with_ref ''A1'' casablanca_item, with_ref ''A2'' centre_moved_item], None)"
proof -
  have h1: "page_loads (json_sanitize ''{broken'') = None" by code_simp
  have h2: "page_finditer NUXT ''agences'' = [] @ ''{broken'' # [''{agences};'']"
    by code_simp
  have h3: "parse_locator decimal_api no_fields page_finditer page_loads (page ''agences'')
     = ([with_ref ''A1'' casablanca_item, with_ref ''A2'' centre_moved_item], None)"
    by code_simp
  have "parse_locator decimal_api no_fields page_finditer page_loads (page ''agences'')
     = parse_locator decimal_api no_fields
         (without_candidate page_finditer NUXT ''agences'' ([] @ [''{agences};'']))
         page_loads (page ''agences'')"
    using h1 h2 by (rule parse_locator_skips_bad_candidate)
  with h1 h2 h3 show ?thesis by blast
qed

end
